theory Spec2Isabelle
  imports Main
begin

section \<open>Python values and strings\<close>

text \<open>
  The scripts read text (CSV cells, psql output) and write SQL. A Python \<open>str\<close> is
  modelled as a \<open>string\<close>; its characters are the code points below 256.
\<close>

datatype pyval = PNone | PStr string | PInt int | PBool bool

definition quote :: char where
  "quote = CHR 0x27"

definition dquote :: char where
  "dquote = CHR 0x22"

text \<open>\<open>str.isspace\<close> on one character, for the code points below 256.\<close>

definition is_space :: "char \<Rightarrow> bool" where
  "is_space c =
     (let n = (of_char c :: nat)
      in (9 \<le> n \<and> n \<le> 13) \<or> (28 \<le> n \<and> n \<le> 32) \<or> n = 133 \<or> n = 160)"

text \<open>\<open>s.strip()\<close> and \<open>s.strip(chars)\<close>: drop the matching characters at both ends.\<close>

definition strip_with :: "(char \<Rightarrow> bool) \<Rightarrow> string \<Rightarrow> string" where
  "strip_with p s = rev (dropWhile p (rev (dropWhile p s)))"

definition py_strip :: "string \<Rightarrow> string" where
  "py_strip s = strip_with is_space s"

definition py_strip_chars :: "string \<Rightarrow> string \<Rightarrow> string" where
  "py_strip_chars cs s = strip_with (\<lambda>c. c \<in> set cs) s"

text \<open>\<open>s.replace(old, new)\<close> for a pattern \<open>old\<close> of one character.\<close>

fun replace_char :: "char \<Rightarrow> string \<Rightarrow> string \<Rightarrow> string" where
  "replace_char old new [] = []"
| "replace_char old new (x # xs) = (if x = old then new else [x]) @ replace_char old new xs"

text \<open>\<open>str(value)\<close> for the values that are neither \<open>None\<close> nor a string.\<close>

definition digit_char :: "nat \<Rightarrow> char" where
  "digit_char d = char_of (48 + d)"

function str_nat :: "nat \<Rightarrow> string" where
  "str_nat n = (if n < 10 then [digit_char n] else str_nat (n div 10) @ [digit_char (n mod 10)])"
  by pat_completeness auto
termination
  by (relation "measure id") auto

declare str_nat.simps [simp del]

definition str_int :: "int \<Rightarrow> string" where
  "str_int i = (if i < 0 then CHR ''-'' # str_nat (nat (- i)) else str_nat (nat i))"

fun py_str :: "pyval \<Rightarrow> string" where
  "py_str PNone = ''None''"
| "py_str (PStr s) = s"
| "py_str (PInt i) = str_int i"
| "py_str (PBool b) = (if b then ''True'' else ''False'')"

section \<open>scripts/generate\_seed\_data.py\<close>

text \<open>
  \<^verbatim>\<open>
  def escape_sql_string(value):
      if value is None:
          return 'NULL'
      if isinstance(value, str):
          return "'" + value.replace("'", "''") + "'"
      return str(value)
  \<close>
\<close>

fun escape_sql_string :: "pyval \<Rightarrow> string" where
  "escape_sql_string PNone = ''NULL''"
| "escape_sql_string (PStr s) = [quote] @ replace_char quote [quote, quote] s @ [quote]"
| "escape_sql_string v = py_str v"

text \<open>
  The reader of a quoted SQL literal, against which the output is judged: inside the
  delimiters a quote stands only as one half of a pair, and a pair reads as one quote.
\<close>

fun unquote_body :: "string \<Rightarrow> string option" where
  "unquote_body [] = Some []"
| "unquote_body [x] = (if x = quote then None else Some [x])"
| "unquote_body (x # y # zs) =
     (if x = quote
      then (if y = quote then map_option (Cons quote) (unquote_body zs) else None)
      else map_option (Cons x) (unquote_body (y # zs)))"

definition read_sql_literal :: "string \<Rightarrow> string option" where
  "read_sql_literal t =
     (case t of
        [] \<Rightarrow> None
      | x # xs \<Rightarrow>
          if x = quote \<and> xs \<noteq> [] \<and> last xs = quote then unquote_body (butlast xs) else None)"

section \<open>The CSV source\<close>

text \<open>
  A row of \<open>csv.DictReader\<close> is a dict from the header's names to cells. A name that
  is not in the header is not a key of the dict (\<open>None\<close> here); a line with fewer cells
  than the header gives the remaining names the value Python \<open>None\<close> (\<open>Some None\<close>);
  every other cell is a string.
\<close>

type_synonym row = "string \<Rightarrow> string option option"

datatype py_error = KeyError | AttributeError | SinkError | CsvError

text \<open>\<open>row[k].strip('"')\<close>: a missing key raises, and so does \<open>None.strip\<close>.\<close>

definition index_strip :: "row \<Rightarrow> string \<Rightarrow> py_error + string" where
  "index_strip r k =
     (case r k of
        None \<Rightarrow> Inl KeyError
      | Some None \<Rightarrow> Inl AttributeError
      | Some (Some s) \<Rightarrow> Inr (py_strip_chars [dquote] s))"

text \<open>\<open>row.get(k, '').strip()\<close>: a missing key reads as the empty string.\<close>

definition get_strip :: "row \<Rightarrow> string \<Rightarrow> py_error + string" where
  "get_strip r k =
     (case r k of
        None \<Rightarrow> Inr (py_strip [])
      | Some None \<Rightarrow> Inl AttributeError
      | Some (Some s) \<Rightarrow> Inr (py_strip s))"

text \<open>
  The row \<open>DictReader\<close> makes of a line with the cells \<open>cells\<close> under a header
  \<open>hdr\<close> of distinct names (cells beyond the header are not looked at by the
  scripts), and the header of the games file.
\<close>

definition dict_row :: "string list \<Rightarrow> string list \<Rightarrow> row" where
  "dict_row hdr cells = (\<lambda>k. if k \<in> set hdr then Some (map_of (zip hdr cells) k) else None)"

definition header :: "string list" where
  "header = [''game_id'', ''internal_name'', ''provider.internal_name'']"

section \<open>The games table behind a psycopg2 connection\<close>

text \<open>
  A row of the table \<open>games\<close>, with the columns the scripts write. A column that an
  INSERT does not name is left to the table's default (\<open>None\<close> here).
\<close>

record game =
  game_id :: string
  name :: string
  internal_name :: string
  provider :: string
  integration_partner :: string
  status :: "string option"
  enabled :: "bool option"
  timestamp :: "nat option"

text \<open>
  The connection runs one transaction at a time: \<open>working\<close> is the table as the
  open transaction sees it, \<open>committed\<close> the table as of the last commit, and
  \<open>log\<close> the calls made on the connection, in order. \<open>commit\<close> makes the working
  table durable; \<open>rollback\<close> throws away everything done since the last commit.
  The table's constraints are not part of the scripts: \<open>rejects t g\<close> says whether
  the table with contents \<open>t\<close> refuses the row \<open>g\<close> (the statement then raises).
  \<open>commit\<close> and \<open>rollback\<close> below are the two calls when they succeed; a server on
  which they can raise comes with \<open>try_commit\<close> and \<open>try_rollback\<close> further down.
  SELECT and DELETE are taken to succeed.
\<close>

datatype stmt =
  SelectGame string | InsertGame game | UpsertGame game | DeleteGroovetech | Commit | Rollback

record conn =
  committed :: "game list"
  working :: "game list"
  log :: "stmt list"

type_synonym constraints = "game list \<Rightarrow> game \<Rightarrow> bool"

definition connect :: "game list \<Rightarrow> conn" where
  "connect db = \<lparr>committed = db, working = db, log = []\<rparr>"

definition commit :: "conn \<Rightarrow> conn" where
  "commit c = c\<lparr>committed := working c, log := log c @ [Commit]\<rparr>"

definition rollback :: "conn \<Rightarrow> conn" where
  "rollback c = c\<lparr>working := committed c, log := log c @ [Rollback]\<rparr>"

text \<open>\<open>SELECT id FROM games WHERE game_id = %s\<close>, then whether \<open>fetchone()\<close> is a row.\<close>

definition select_game :: "string \<Rightarrow> conn \<Rightarrow> bool \<times> conn" where
  "select_game gid c =
     (gid \<in> set (map game_id (working c)), c\<lparr>log := log c @ [SelectGame gid]\<rparr>)"

text \<open>A plain INSERT of one row; the result is the cursor's \<open>rowcount\<close>.\<close>

definition insert_game :: "constraints \<Rightarrow> game \<Rightarrow> conn \<Rightarrow> (py_error + int) \<times> conn" where
  "insert_game rejects g c =
     (if rejects (working c) g
      then (Inl SinkError, c\<lparr>log := log c @ [InsertGame g]\<rparr>)
      else (Inr 1, c\<lparr>working := working c @ [g], log := log c @ [InsertGame g]\<rparr>))"

text \<open>
  \<open>INSERT ... ON CONFLICT (game_id) DO UPDATE SET name, internal_name, provider,
  integration_partner\<close>. A row with the same \<open>game_id\<close> is no violation but is
  updated; the other constraints are asked about the updated row against the rest of
  the table, or about the new row against the whole table. PostgreSQL's count for an
  INSERT is the number of rows inserted or updated, so \<open>rowcount\<close> is 1 on either path
  (the table has no trigger or rule that drops the row).
\<close>

definition on_conflict_update :: "game \<Rightarrow> game \<Rightarrow> game" where
  "on_conflict_update g old =
     (if game_id old = game_id g
      then old\<lparr>name := name g, internal_name := internal_name g, provider := provider g,
               integration_partner := integration_partner g\<rparr>
      else old)"

definition upsert_game :: "constraints \<Rightarrow> game \<Rightarrow> conn \<Rightarrow> (py_error + int) \<times> conn" where
  "upsert_game rejects g c =
     (if game_id g \<in> set (map game_id (working c))
      then
        (if list_ex (\<lambda>old. game_id old = game_id g
                 \<and> rejects (filter (\<lambda>h. game_id h \<noteq> game_id g) (working c))
                       (on_conflict_update g old)) (working c)
         then (Inl SinkError, c\<lparr>log := log c @ [UpsertGame g]\<rparr>)
         else (Inr 1, c\<lparr>working := map (on_conflict_update g) (working c),
                         log := log c @ [UpsertGame g]\<rparr>))
      else if rejects (working c) g
      then (Inl SinkError, c\<lparr>log := log c @ [UpsertGame g]\<rparr>)
      else (Inr 1, c\<lparr>working := working c @ [g], log := log c @ [UpsertGame g]\<rparr>))"

text \<open>\<open>DELETE FROM games WHERE integration_partner = 'groovetech'\<close>.\<close>

definition delete_groovetech :: "conn \<Rightarrow> conn" where
  "delete_groovetech c =
     c\<lparr>working := filter (\<lambda>g. integration_partner g \<noteq> ''groovetech'') (working c),
       log := log c @ [DeleteGroovetech]\<rparr>"

text \<open>
  Two tables to run the scripts against: one that refuses nothing, and one with a
  UNIQUE constraint on \<open>game_id\<close> (which \<open>ON CONFLICT (game_id)\<close> needs).
\<close>

definition accepts_all :: constraints where
  "accepts_all t g = False"

definition unique_game_id :: constraints where
  "unique_game_id t g = (game_id g \<in> set (map game_id t))"

text \<open>The rows of a table that the DELETE keeps.\<close>

definition other_partners :: "game list \<Rightarrow> game list" where
  "other_partners t = filter (\<lambda>g. integration_partner g \<noteq> ''groovetech'') t"

section \<open>The counters and the result of a run\<close>

text \<open>
  The counters the import scripts print at the end. A script that has no counter of
  some name leaves it at 0.
\<close>

record counts =
  imported_count :: nat
  updated_count :: nat
  skipped_count :: nat
  error_count :: nat

definition no_counts :: counts where
  "no_counts = \<lparr>imported_count = 0, updated_count = 0, skipped_count = 0, error_count = 0\<rparr>"

text \<open>The rows accounted for by the counters of the corrected script.\<close>

definition counted :: "counts \<Rightarrow> nat" where
  "counted n = imported_count n + updated_count n + error_count n"

text \<open>A run either reaches its final prints or ends the process by \<open>sys.exit(code)\<close>.\<close>

datatype run_result = Exited nat | Completed counts

definition new_game :: "string \<Rightarrow> string \<Rightarrow> string \<Rightarrow> string \<Rightarrow> game" where
  "new_game gid gname iname prov =
     \<lparr>game_id = gid, name = gname, internal_name = iname, provider = prov,
      integration_partner = ''groovetech'', status = None, enabled = None, timestamp = None\<rparr>"

section \<open>scripts/import\_games\_corrected.py\<close>

text \<open>
  The handler of the loop's \<open>try\<close>:
  \<^verbatim>\<open>
  except Exception as e:
      error_count += 1
      # Rollback this specific row and continue
      conn.rollback()
      continue
  \<close>
\<close>

definition on_row_error :: "counts \<times> conn \<Rightarrow> counts \<times> conn" where
  "on_row_error s =
     (case s of (n, c) \<Rightarrow> (n\<lparr>error_count := error_count n + 1\<rparr>, rollback c))"

text \<open>
  One pass of the loop body for the row numbered \<open>row_num\<close>, when \<open>commit\<close> and
  \<open>rollback\<close> succeed. The source commits when \<open>row_num % 100 == 0\<close>; the interval is
  the parameter \<open>batch\<close> of the body (positive), and the script runs it with 100.
  \<^verbatim>\<open>
  game_id = row.get('game_id', '').strip()
  internal_name = row.get('internal_name', '').strip()
  provider = row.get('provider.internal_name', '').strip()
  if not game_id or not internal_name:
      error_count += 1
      continue
  game_name = internal_name
  cursor.execute(INSERT ... ON CONFLICT (game_id) DO UPDATE ...,
                 (game_id, game_name, internal_name, provider, 'groovetech'))
  if cursor.rowcount == 1:
      imported_count += 1
  else:
      updated_count += 1
  if row_num % 100 == 0:
      conn.commit()
  \<close>
\<close>

definition corrected_row ::
  "nat \<Rightarrow> constraints \<Rightarrow> nat \<Rightarrow> row \<Rightarrow> counts \<times> conn \<Rightarrow> counts \<times> conn" where
  "corrected_row batch rejects row_num r s =
     (case s of (n, c) \<Rightarrow>
       (case get_strip r ''game_id'' of
          Inl e \<Rightarrow> on_row_error (n, c)
        | Inr gid \<Rightarrow>
       (case get_strip r ''internal_name'' of
          Inl e \<Rightarrow> on_row_error (n, c)
        | Inr iname \<Rightarrow>
       (case get_strip r ''provider.internal_name'' of
          Inl e \<Rightarrow> on_row_error (n, c)
        | Inr prov \<Rightarrow>
           if gid = [] \<or> iname = []
           then (n\<lparr>error_count := error_count n + 1\<rparr>, c)
           else
             (case upsert_game rejects (new_game gid iname iname prov) c of
                (Inl e, c') \<Rightarrow> on_row_error (n, c')
              | (Inr rowcount, c') \<Rightarrow>
                  (if rowcount = 1
                   then n\<lparr>imported_count := imported_count n + 1\<rparr>
                   else n\<lparr>updated_count := updated_count n + 1\<rparr>,
                   if row_num mod batch = 0 then commit c' else c'))))))"

text \<open>\<open>for row_num, row in enumerate(csv_reader, start=1)\<close>.\<close>

fun corrected_loop ::
  "nat \<Rightarrow> constraints \<Rightarrow> nat \<Rightarrow> row list \<Rightarrow> counts \<times> conn \<Rightarrow> counts \<times> conn" where
  "corrected_loop batch rejects row_num [] s = s"
| "corrected_loop batch rejects row_num (r # rs) s =
     corrected_loop batch rejects (Suc row_num) rs (corrected_row batch rejects row_num r s)"

text \<open>
  The run on a database that can be reached, a file whose lines the reader all turns
  into rows, and a connection on which \<open>commit\<close> and \<open>rollback\<close> succeed (the run
  without these three conditions is \<open>run_corrected\<close> below). \<open>csv\<close> is \<open>None\<close> when
  the file cannot be opened (the outer handler then calls \<open>sys.exit(1)\<close>). After the
  loop comes the final commit; the queries that follow it only read the table and are
  left out. The connection is closed at the end, so the database a later run finds is
  the \<open>committed\<close> table.
\<close>

definition import_games_corrected ::
  "constraints \<Rightarrow> row list option \<Rightarrow> game list \<Rightarrow> run_result \<times> conn" where
  "import_games_corrected rejects csv db =
     (case csv of
        None \<Rightarrow> (Exited 1, connect db)
      | Some rows \<Rightarrow>
          (case corrected_loop 100 rejects 1 rows (no_counts, connect db) of
             (n, c) \<Rightarrow> (Completed n, commit c)))"

section \<open>scripts/import\_games\_simple.py\<close>

text \<open>
  \<^verbatim>\<open>
  game_id = row.get('game_id', '').strip()
  internal_name = row.get('internal_name', '').strip()
  provider = row.get('provider.internal_name', '').strip()
  if not game_id or not internal_name:
      error_count += 1
      continue
  game_name = internal_name
  cursor.execute(INSERT INTO games (...) VALUES (...),
                 (game_id, game_name, internal_name, provider, 'groovetech'))
  imported_count += 1
  if row_num % 100 == 0:
      conn.commit()
  \<close>
  with the handler \<open>error_count += 1; conn.rollback(); continue\<close>.
\<close>

definition simple_row ::
  "nat \<Rightarrow> constraints \<Rightarrow> nat \<Rightarrow> row \<Rightarrow> counts \<times> conn \<Rightarrow> counts \<times> conn" where
  "simple_row batch rejects row_num r s =
     (case s of (n, c) \<Rightarrow>
       (case get_strip r ''game_id'' of
          Inl e \<Rightarrow> on_row_error (n, c)
        | Inr gid \<Rightarrow>
       (case get_strip r ''internal_name'' of
          Inl e \<Rightarrow> on_row_error (n, c)
        | Inr iname \<Rightarrow>
       (case get_strip r ''provider.internal_name'' of
          Inl e \<Rightarrow> on_row_error (n, c)
        | Inr prov \<Rightarrow>
           if gid = [] \<or> iname = []
           then (n\<lparr>error_count := error_count n + 1\<rparr>, c)
           else
             (case insert_game rejects (new_game gid iname iname prov) c of
                (Inl e, c') \<Rightarrow> on_row_error (n, c')
              | (Inr rowcount, c') \<Rightarrow>
                  (n\<lparr>imported_count := imported_count n + 1\<rparr>,
                   if row_num mod batch = 0 then commit c' else c'))))))"

fun simple_loop ::
  "nat \<Rightarrow> constraints \<Rightarrow> nat \<Rightarrow> row list \<Rightarrow> counts \<times> conn \<Rightarrow> counts \<times> conn" where
  "simple_loop batch rejects row_num [] s = s"
| "simple_loop batch rejects row_num (r # rs) s =
     simple_loop batch rejects (Suc row_num) rs (simple_row batch rejects row_num r s)"

text \<open>
  Before it opens the file the script clears the partner's rows and commits (the run
  is under the same three conditions as \<open>import_games_corrected\<close>; without them it is
  \<open>run_simple\<close> below):
  \<^verbatim>\<open>
  cursor.execute("DELETE FROM games WHERE integration_partner = 'groovetech'")
  conn.commit()
  \<close>
\<close>

definition import_games_simple ::
  "constraints \<Rightarrow> row list option \<Rightarrow> game list \<Rightarrow> run_result \<times> conn" where
  "import_games_simple rejects csv db =
     (let c0 = commit (delete_groovetech (connect db))
      in case csv of
           None \<Rightarrow> (Exited 1, c0)
         | Some rows \<Rightarrow>
             (case simple_loop 100 rejects 1 rows (no_counts, c0) of
                (n, c) \<Rightarrow> (Completed n, commit c)))"



section \<open>import\_games.py\<close>

text \<open>
  This script has one \<open>try\<close> around the whole loop, so a row that raises ends the
  loop. (\<open>import_games\<close> is the run when the reader raises nothing and \<open>commit\<close> and
  \<open>rollback\<close> succeed; without these conditions it is \<open>run_import_games\<close> below.) \<open>datetime.now()\<close> is evaluated for every INSERT: \<open>now k\<close> is the clock's
  \<open>k\<close>-th reading within the run, and the state counts the readings taken.
  \<^verbatim>\<open>
  game_id = row['game_id'].strip('"')
  internal_name = row['internal_name'].strip('"')
  provider = row['provider.internal_name'].strip('"')
  cursor.execute("SELECT id FROM games WHERE game_id = %s", (game_id,))
  if cursor.fetchone():
      skipped_count += 1
      continue
  cursor.execute(INSERT INTO games (name, game_id, internal_name, integration_partner,
                                    provider, status, enabled, timestamp) ...,
                 (internal_name, game_id, internal_name, 'groovetech', provider,
                  'ACTIVE', True, datetime.now()))
  imported_count += 1
  \<close>
\<close>

definition games_row ::
  "constraints \<Rightarrow> (nat \<Rightarrow> nat) \<Rightarrow> row \<Rightarrow> counts \<times> conn \<times> nat
     \<Rightarrow> py_error option \<times> counts \<times> conn \<times> nat" where
  "games_row rejects now r s =
     (case s of (n, c, k) \<Rightarrow>
       (case index_strip r ''game_id'' of
          Inl e \<Rightarrow> (Some e, s)
        | Inr gid \<Rightarrow>
       (case index_strip r ''internal_name'' of
          Inl e \<Rightarrow> (Some e, s)
        | Inr iname \<Rightarrow>
       (case index_strip r ''provider.internal_name'' of
          Inl e \<Rightarrow> (Some e, s)
        | Inr prov \<Rightarrow>
           (case select_game gid c of
              (found, c1) \<Rightarrow>
                if found
                then (None, n\<lparr>skipped_count := skipped_count n + 1\<rparr>, c1, k)
                else
                  (case insert_game rejects
                          ((new_game gid iname iname prov)
                             \<lparr>status := Some ''ACTIVE'', enabled := Some True,
                              timestamp := Some (now k)\<rparr>) c1 of
                     (Inl e, c2) \<Rightarrow> (Some e, n, c2, Suc k)
                   | (Inr rowcount, c2) \<Rightarrow>
                       (None, n\<lparr>imported_count := imported_count n + 1\<rparr>, c2, Suc k)))))))"

fun games_loop ::
  "constraints \<Rightarrow> (nat \<Rightarrow> nat) \<Rightarrow> row list \<Rightarrow> counts \<times> conn \<times> nat
     \<Rightarrow> py_error option \<times> counts \<times> conn \<times> nat" where
  "games_loop rejects now [] s = (None, s)"
| "games_loop rejects now (r # rs) s =
     (case games_row rejects now r s of
        (Some e, s') \<Rightarrow> (Some e, s')
      | (None, s') \<Rightarrow> games_loop rejects now rs s')"

text \<open>
  \<^verbatim>\<open>
  try:
      with open(csv_file, ...) as file:
          for row in csv_reader: ...
          conn.commit()
  except Exception as e:
      conn.rollback()
      sys.exit(1)
  \<close>
\<close>

definition import_games ::
  "constraints \<Rightarrow> (nat \<Rightarrow> nat) \<Rightarrow> row list option \<Rightarrow> game list \<Rightarrow> run_result \<times> conn" where
  "import_games rejects now csv db =
     (case csv of
        None \<Rightarrow> (Exited 1, rollback (connect db))
      | Some rows \<Rightarrow>
          (case games_loop rejects now rows (no_counts, connect db, 0) of
             (Some e, n, c, k) \<Rightarrow> (Exited 1, rollback c)
           | (None, n, c, k) \<Rightarrow> (Completed n, commit c)))"

text \<open>
  For stating the second run: the key the script looks up for a row, and whether a row
  can be read and its key is in a table.
\<close>

definition game_id_of :: "row \<Rightarrow> string" where
  "game_id_of r = (case index_strip r ''game_id'' of Inl e \<Rightarrow> [] | Inr gid \<Rightarrow> gid)"

definition known :: "row \<Rightarrow> game list \<Rightarrow> bool" where
  "known r t =
     (case index_strip r ''game_id'' of
        Inl e \<Rightarrow> False
      | Inr gid \<Rightarrow>
     (case index_strip r ''internal_name'' of
        Inl e \<Rightarrow> False
      | Inr iname \<Rightarrow>
     (case index_strip r ''provider.internal_name'' of
        Inl e \<Rightarrow> False
      | Inr prov \<Rightarrow> gid \<in> set (map game_id t))))"

section \<open>The scripts when the reader and the connection can fail\<close>

text \<open>
  The \<open>for\<close> statement asks the CSV reader for the next row outside every per-row
  \<open>try\<close>: a line the reader cannot turn into a row (a byte that does not decode, a
  cell over the size limit) raises there. A file is a list of lines, each a row or such
  an error; nothing after the error is read.
\<close>

datatype line = Row row | ReaderError


text \<open>The rows among the lines of a file.\<close>

fun rows_of :: "line list \<Rightarrow> row list" where
  "rows_of [] = []"
| "rows_of (Row r # ls) = r # rows_of ls"
| "rows_of (ReaderError # ls) = rows_of ls"

text \<open>
  A server is the table's constraints together with what the scripts cannot see: whether
  \<open>conn.commit()\<close> and \<open>conn.rollback()\<close> raise, given the calls made on the
  connection so far. A commit that raises makes nothing durable and the open
  transaction is lost; a rollback that raises leaves the connection as it is.
\<close>

record server =
  refuses :: constraints
  commit_fails :: "stmt list \<Rightarrow> bool"
  rollback_fails :: "stmt list \<Rightarrow> bool"

definition reliable :: "constraints \<Rightarrow> server" where
  "reliable rejects =
     \<lparr>refuses = rejects, commit_fails = (\<lambda>l. False), rollback_fails = (\<lambda>l. False)\<rparr>"

definition try_commit :: "server \<Rightarrow> conn \<Rightarrow> py_error option \<times> conn" where
  "try_commit sv c =
     (if commit_fails sv (log c)
      then (Some SinkError, c\<lparr>working := committed c, log := log c @ [Commit]\<rparr>)
      else (None, commit c))"

definition try_rollback :: "server \<Rightarrow> conn \<Rightarrow> py_error option \<times> conn" where
  "try_rollback sv c =
     (if rollback_fails sv (log c)
      then (Some SinkError, c\<lparr>log := log c @ [Rollback]\<rparr>)
      else (None, rollback c))"

text \<open>
  The handler of the per-row \<open>try\<close> in the corrected and the simple script:
  \<open>error_count += 1\<close>, then \<open>conn.rollback()\<close>. An exception of the rollback is
  raised inside the handler and leaves the loop (\<open>Some\<close>).
\<close>

definition handle_row_error ::
  "server \<Rightarrow> counts \<times> conn \<Rightarrow> py_error option \<times> counts \<times> conn" where
  "handle_row_error sv s =
     (case s of (n, c) \<Rightarrow>
        (case try_rollback sv c of
           (e, c') \<Rightarrow> (e, n\<lparr>error_count := error_count n + 1\<rparr>, c')))"

text \<open>
  The body of the loop of import\_games\_corrected.py (the source is quoted above). The
  commit at every 100th row is inside the \<open>try\<close>, after the counter has been
  incremented: when it raises, the handler runs for a row that is already counted.
\<close>

definition corrected_body ::
  "server \<Rightarrow> nat \<Rightarrow> row \<Rightarrow> counts \<times> conn \<Rightarrow> py_error option \<times> counts \<times> conn" where
  "corrected_body sv row_num r s =
     (case s of (n, c) \<Rightarrow>
       (case get_strip r ''game_id'' of
          Inl e \<Rightarrow> handle_row_error sv (n, c)
        | Inr gid \<Rightarrow>
       (case get_strip r ''internal_name'' of
          Inl e \<Rightarrow> handle_row_error sv (n, c)
        | Inr iname \<Rightarrow>
       (case get_strip r ''provider.internal_name'' of
          Inl e \<Rightarrow> handle_row_error sv (n, c)
        | Inr prov \<Rightarrow>
           if gid = [] \<or> iname = []
           then (None, n\<lparr>error_count := error_count n + 1\<rparr>, c)
           else
             (case upsert_game (refuses sv) (new_game gid iname iname prov) c of
                (Inl e, c') \<Rightarrow> handle_row_error sv (n, c')
              | (Inr rowcount, c') \<Rightarrow>
                  (let n' = (if rowcount = 1
                             then n\<lparr>imported_count := imported_count n + 1\<rparr>
                             else n\<lparr>updated_count := updated_count n + 1\<rparr>)
                   in if row_num mod 100 = 0
                      then (case try_commit sv c' of
                              (Some e, c'') \<Rightarrow> handle_row_error sv (n', c'')
                            | (None, c'') \<Rightarrow> (None, n', c''))
                      else (None, n', c')))))))"

text \<open>
  \<open>for row_num, row in enumerate(csv_reader, start=1)\<close>: \<open>row_num\<close> here is the
  number of the last row read (0 before the first), and the loop gives it back with the
  counters. The result is \<open>Some\<close> when an exception has left the loop.
\<close>

fun corrected_for ::
  "server \<Rightarrow> nat \<Rightarrow> line list \<Rightarrow> counts \<times> conn \<Rightarrow> py_error option \<times> nat \<times> counts \<times> conn" where
  "corrected_for sv row_num [] s = (None, row_num, s)"
| "corrected_for sv row_num (ReaderError # ls) s = (Some CsvError, row_num, s)"
| "corrected_for sv row_num (Row r # ls) s =
     (case corrected_body sv (Suc row_num) r s of
        (Some e, s') \<Rightarrow> (Some e, Suc row_num, s')
      | (None, s') \<Rightarrow> corrected_for sv (Suc row_num) ls s')"

text \<open>
  The script: every exception that leaves the loop, and one of the final commit, reaches
  the outer handler, which prints and calls \<open>sys.exit(1)\<close>.
\<close>

definition run_corrected :: "server \<Rightarrow> line list option \<Rightarrow> game list \<Rightarrow> run_result \<times> conn" where
  "run_corrected sv csv db =
     (case csv of
        None \<Rightarrow> (Exited 1, connect db)
      | Some ls \<Rightarrow>
          (case corrected_for sv 0 ls (no_counts, connect db) of
             (Some e, k, n, c) \<Rightarrow> (Exited 1, c)
           | (None, k, n, c) \<Rightarrow>
               (case try_commit sv c of
                  (Some e, c') \<Rightarrow> (Exited 1, c')
                | (None, c') \<Rightarrow> (Completed n, c'))))"

text \<open>The same for import\_games\_simple.py.\<close>

definition simple_body ::
  "server \<Rightarrow> nat \<Rightarrow> row \<Rightarrow> counts \<times> conn \<Rightarrow> py_error option \<times> counts \<times> conn" where
  "simple_body sv row_num r s =
     (case s of (n, c) \<Rightarrow>
       (case get_strip r ''game_id'' of
          Inl e \<Rightarrow> handle_row_error sv (n, c)
        | Inr gid \<Rightarrow>
       (case get_strip r ''internal_name'' of
          Inl e \<Rightarrow> handle_row_error sv (n, c)
        | Inr iname \<Rightarrow>
       (case get_strip r ''provider.internal_name'' of
          Inl e \<Rightarrow> handle_row_error sv (n, c)
        | Inr prov \<Rightarrow>
           if gid = [] \<or> iname = []
           then (None, n\<lparr>error_count := error_count n + 1\<rparr>, c)
           else
             (case insert_game (refuses sv) (new_game gid iname iname prov) c of
                (Inl e, c') \<Rightarrow> handle_row_error sv (n, c')
              | (Inr rowcount, c') \<Rightarrow>
                  (let n' = n\<lparr>imported_count := imported_count n + 1\<rparr>
                   in if row_num mod 100 = 0
                      then (case try_commit sv c' of
                              (Some e, c'') \<Rightarrow> handle_row_error sv (n', c'')
                            | (None, c'') \<Rightarrow> (None, n', c''))
                      else (None, n', c')))))))"

fun simple_for ::
  "server \<Rightarrow> nat \<Rightarrow> line list \<Rightarrow> counts \<times> conn \<Rightarrow> py_error option \<times> nat \<times> counts \<times> conn" where
  "simple_for sv row_num [] s = (None, row_num, s)"
| "simple_for sv row_num (ReaderError # ls) s = (Some CsvError, row_num, s)"
| "simple_for sv row_num (Row r # ls) s =
     (case simple_body sv (Suc row_num) r s of
        (Some e, s') \<Rightarrow> (Some e, Suc row_num, s')
      | (None, s') \<Rightarrow> simple_for sv (Suc row_num) ls s')"

definition run_simple :: "server \<Rightarrow> line list option \<Rightarrow> game list \<Rightarrow> run_result \<times> conn" where
  "run_simple sv csv db =
     (case try_commit sv (delete_groovetech (connect db)) of
        (Some e, c0) \<Rightarrow> (Exited 1, c0)
      | (None, c0) \<Rightarrow>
          (case csv of
             None \<Rightarrow> (Exited 1, c0)
           | Some ls \<Rightarrow>
               (case simple_for sv 0 ls (no_counts, c0) of
                  (Some e, k, n, c) \<Rightarrow> (Exited 1, c)
                | (None, k, n, c) \<Rightarrow>
                    (case try_commit sv c of
                       (Some e, c') \<Rightarrow> (Exited 1, c')
                     | (None, c') \<Rightarrow> (Completed n, c')))))"

text \<open>
  import\_games.py: the body makes no commit and has no handler of its own, so it is
  \<open>games_row\<close>. Every exception, also one of the reader or of the final commit, reaches
  the one handler, which rolls back and calls \<open>sys.exit(1)\<close>; when that rollback
  raises, the exception is not caught and the process ends with status 1 as well.
\<close>

fun games_for ::
  "constraints \<Rightarrow> (nat \<Rightarrow> nat) \<Rightarrow> line list \<Rightarrow> counts \<times> conn \<times> nat
     \<Rightarrow> py_error option \<times> counts \<times> conn \<times> nat" where
  "games_for rejects now [] s = (None, s)"
| "games_for rejects now (ReaderError # ls) s = (Some CsvError, s)"
| "games_for rejects now (Row r # ls) s =
     (case games_row rejects now r s of
        (Some e, s') \<Rightarrow> (Some e, s')
      | (None, s') \<Rightarrow> games_for rejects now ls s')"

definition exit_handler :: "server \<Rightarrow> conn \<Rightarrow> run_result \<times> conn" where
  "exit_handler sv c = (Exited 1, snd (try_rollback sv c))"

definition run_import_games ::
  "server \<Rightarrow> (nat \<Rightarrow> nat) \<Rightarrow> line list option \<Rightarrow> game list \<Rightarrow> run_result \<times> conn" where
  "run_import_games sv now csv db =
     (case csv of
        None \<Rightarrow> exit_handler sv (connect db)
      | Some ls \<Rightarrow>
          (case games_for (refuses sv) now ls (no_counts, connect db, 0) of
             (Some e, n, c, k) \<Rightarrow> exit_handler sv c
           | (None, n, c, k) \<Rightarrow>
               (case try_commit sv c of
                  (Some e, c') \<Rightarrow> exit_handler sv c'
                | (None, c') \<Rightarrow> (Completed n, c'))))"

section \<open>migrate\_postgres\_to\_clickhouse.py\<close>

text \<open>
  A row of the query is a tuple \<open>(id, user_id, amount, currency_code, status,
  created_at, updated_at)\<close>; a timestamp is \<open>None\<close> when the column is NULL. The row
  sent to ClickHouse is
  \<^verbatim>\<open>
  (str(row[0]), str(row[1]), row[2], row[3], row[4],
   row[5] or datetime.now(), row[6] or datetime.now())
  \<close>
  built for each row in turn by the list comprehension. \<open>x or datetime.now()\<close> reads
  the clock only when \<open>x\<close> is \<open>None\<close>.
\<close>

type_synonym tx_row = "pyval \<times> pyval \<times> pyval \<times> pyval \<times> pyval \<times> nat option \<times> nat option"

type_synonym deposit = "string \<times> string \<times> pyval \<times> pyval \<times> pyval \<times> nat \<times> nat"

definition or_now :: "(nat \<Rightarrow> nat) \<Rightarrow> nat option \<Rightarrow> nat \<Rightarrow> nat \<times> nat" where
  "or_now now v k = (case v of Some t \<Rightarrow> (t, k) | None \<Rightarrow> (now k, Suc k))"

fun deposit_rows :: "(nat \<Rightarrow> nat) \<Rightarrow> tx_row list \<Rightarrow> nat \<Rightarrow> deposit list \<times> nat" where
  "deposit_rows now [] k = ([], k)"
| "deposit_rows now ((i, u, a, cur, st, ca, ua) # rs) k =
     (case or_now now ca k of
        (ca', k1) \<Rightarrow>
          (case or_now now ua k1 of
             (ua', k2) \<Rightarrow>
               (case deposit_rows now rs k2 of
                  (out, k3) \<Rightarrow> ((py_str i, py_str u, a, cur, st, ca', ua') # out, k3))))"

text \<open>\<open>if rows: ch_client.execute("INSERT INTO ... deposits ... VALUES", [...])\<close>.\<close>

definition migrate_transactions_as_deposits ::
  "(nat \<Rightarrow> nat) \<Rightarrow> tx_row list \<Rightarrow> deposit list \<times> nat \<Rightarrow> deposit list \<times> nat" where
  "migrate_transactions_as_deposits now rows s =
     (case s of (sink, k) \<Rightarrow>
        if rows = [] then (sink, k)
        else (case deposit_rows now rows k of (out, k') \<Rightarrow> (sink @ out, k')))"

text \<open>The number of NULL timestamps in the rows, each of which reads the clock once.\<close>

fun nulls :: "tx_row list \<Rightarrow> nat" where
  "nulls [] = 0"
| "nulls ((i, u, a, cur, st, ca, ua) # rs) =
     (if ca = None then 1 else 0) + (if ua = None then 1 else 0) + nulls rs"

section \<open>Properties of escape\_sql\_string\<close>

lemma unquote_body_replace:
  "unquote_body (replace_char quote [quote, quote] s) = Some s"
proof (induction s)
  case Nil
  show ?case by simp
next
  case (Cons x xs)
  show ?case
  proof (cases "x = quote")
    case True
    with Cons show ?thesis by simp
  next
    case False
    show ?thesis
    proof (cases "replace_char quote [quote, quote] xs")
      case Nil
      with Cons have "xs = []" by simp
      with False show ?thesis by simp
    next
      case (Cons y ys)
      with False Cons.IH show ?thesis by simp
    qed
  qed
qed

text \<open>
  C9. \<open>escape_sql_string\<close> is defined on every value: \<open>None\<close> gives the unquoted
  text NULL; a string \<open>s\<close> gives a quote, \<open>s\<close> with every quote doubled, and a quote,
  which reads back as the literal \<open>s\<close> (so no quote of the body stands alone); an
  integer or a boolean gives \<open>str(value)\<close>.
\<close>

theorem escape_sql_string_literal:
  "escape_sql_string PNone = ''NULL''
   \<and> escape_sql_string (PStr s) = quote # replace_char quote [quote, quote] s @ [quote]
   \<and> unquote_body (replace_char quote [quote, quote] s) = Some s
   \<and> read_sql_literal (escape_sql_string (PStr s)) = Some s
   \<and> escape_sql_string (PInt i) = py_str (PInt i)
   \<and> escape_sql_string (PBool b) = py_str (PBool b)"
  by (simp add: read_sql_literal_def unquote_body_replace)

section \<open>Evaluating a run on a given file\<close>

lemmas eval_defs =
  dict_row_def header_def no_counts_def connect_def commit_def rollback_def
  index_strip_def get_strip_def py_strip_def py_strip_chars_def strip_with_def is_space_def
  dquote_def select_game_def insert_game_def upsert_game_def on_conflict_update_def
  delete_groovetech_def new_game_def on_row_error_def accepts_all_def unique_game_id_def
  corrected_row_def simple_row_def games_row_def
  import_games_corrected_def import_games_simple_def
  import_games_def

section \<open>Rows without a key\<close>

text \<open>
  C1, as the code has it. In the corrected and the simple script, a row whose three
  cells can be read and whose \<open>game_id\<close> or \<open>internal_name\<close> is empty after trimming
  (or missing from the header) only adds one to \<open>error_count\<close>: the connection, and
  with it the log of calls, is as before, whatever the commit interval and the table.
\<close>

theorem missing_key_row_only_counts_an_error:
  assumes "get_strip r ''game_id'' = Inr gid"
    and "get_strip r ''internal_name'' = Inr iname"
    and "get_strip r ''provider.internal_name'' = Inr prov"
    and "gid = [] \<or> iname = []"
  shows "corrected_row batch rejects row_num r (n, c) = (n\<lparr>error_count := error_count n + 1\<rparr>, c)
       \<and> simple_row batch rejects row_num r (n, c) = (n\<lparr>error_count := error_count n + 1\<rparr>, c)"
  using assms by (simp add: corrected_row_def simple_row_def)

theorem missing_key_row_witness:
  "corrected_row 100 unique_game_id 7 (dict_row header [''  '', ''x'', ''p''])
       (no_counts, connect [new_game ''A'' ''a'' ''a'' ''p''])
     = (no_counts\<lparr>error_count := 1\<rparr>, connect [new_game ''A'' ''a'' ''a'' ''p''])
   \<and> simple_row 100 unique_game_id 7 (dict_row header [''  '', ''x'', ''p''])
       (no_counts, connect [new_game ''A'' ''a'' ''a'' ''p''])
     = (no_counts\<lparr>error_count := 1\<rparr>, connect [new_game ''A'' ''a'' ''a'' ''p''])"
proof -
  let ?r = "dict_row header [''  '', ''x'', ''p'']"
  have g: "get_strip ?r ''game_id'' = Inr []"
    and i: "get_strip ?r ''internal_name'' = Inr ''x''"
    and p: "get_strip ?r ''provider.internal_name'' = Inr ''p''"
    by (simp_all add: eval_defs)
  have k: "([] :: string) = [] \<or> ''x'' = []" by simp
  from missing_key_row_only_counts_an_error [OF g i p k, of 100 unique_game_id 7 no_counts
      "connect [new_game ''A'' ''a'' ''a'' ''p'']"]
  show ?thesis by (simp add: no_counts_def)
qed

text \<open>
  The claim C1 as the specification states it fails for the skip-existing script:
  import\_games.py does not look at the key, so a row with an empty \<open>game_id\<close> is
  looked up and inserted.
\<close>

theorem import_games_sends_an_empty_key:
  "import_games accepts_all (\<lambda>k. 0) (Some [dict_row header ['''', ''x'', ''p'']]) [] =
    (Completed \<lparr>imported_count = 1, updated_count = 0, skipped_count = 0, error_count = 0\<rparr>,
     \<lparr>committed = [(new_game [] ''x'' ''x'' ''p'')
          \<lparr>status := Some ''ACTIVE'', enabled := Some True, timestamp := Some 0\<rparr>],
      working = [(new_game [] ''x'' ''x'' ''p'')
          \<lparr>status := Some ''ACTIVE'', enabled := Some True, timestamp := Some 0\<rparr>],
      log = [SelectGame [],
             InsertGame ((new_game [] ''x'' ''x'' ''p'')
               \<lparr>status := Some ''ACTIVE'', enabled := Some True, timestamp := Some 0\<rparr>),
             Commit]\<rparr>)"
  by (simp add: eval_defs)

section \<open>A failing row and the rows before it\<close>

text \<open>
  C3, evaluated on the code. Three rows against an empty table that refuses the second:
  the handler's \<open>conn.rollback()\<close> ends the whole open transaction, so the first row,
  counted as imported, is not in the table after the final commit; only the third is.
\<close>

theorem corrected_rollback_discards_earlier_rows:
  "fst (import_games_corrected (\<lambda>t g. game_id g = ''B'')
         (Some [dict_row header [''A'', ''a'', ''p''], dict_row header [''B'', ''b'', ''p''],
                dict_row header [''C'', ''c'', ''p'']]) [])
     = Completed \<lparr>imported_count = 2, updated_count = 0, skipped_count = 0, error_count = 1\<rparr>
   \<and> committed (snd (import_games_corrected (\<lambda>t g. game_id g = ''B'')
         (Some [dict_row header [''A'', ''a'', ''p''], dict_row header [''B'', ''b'', ''p''],
                dict_row header [''C'', ''c'', ''p'']]) []))
     = [new_game ''C'' ''c'' ''c'' ''p'']"
  by (simp add: eval_defs)

text \<open>
  C5, evaluated on the code. Two rows with the same \<open>game_id\<close> against an empty table:
  the second statement updates the row the first inserted, but \<open>rowcount\<close> is 1 both
  times, so both rows are counted as imported and none as updated.
\<close>

theorem corrected_counts_an_update_as_an_import:
  "import_games_corrected accepts_all
      (Some [dict_row header [''A'', ''Foo'', ''p''], dict_row header [''A'', ''Bar'', ''p'']]) []
     = (Completed \<lparr>imported_count = 2, updated_count = 0, skipped_count = 0, error_count = 0\<rparr>,
        \<lparr>committed = [new_game ''A'' ''Bar'' ''Bar'' ''p''],
         working = [new_game ''A'' ''Bar'' ''Bar'' ''p''],
         log = [UpsertGame (new_game ''A'' ''Foo'' ''Foo'' ''p''),
                UpsertGame (new_game ''A'' ''Bar'' ''Bar'' ''p''), Commit]\<rparr>)"
  by (simp add: eval_defs)

section \<open>Running the simple script again\<close>

lemma other_partners_idem [simp]: "other_partners (other_partners t) = other_partners t"
  by (simp add: other_partners_def)

lemma other_partners_new_game [simp]:
  "other_partners (t @ [new_game gid gname iname prov]) = other_partners t"
  by (simp add: other_partners_def new_game_def)













section \<open>Default timestamps\<close>

lemma deposit_rows_Cons:
  "fst (deposit_rows now ((i, u, a, cur, st, ca, ua) # rs) k) =
     (py_str i, py_str u, a, cur, st, fst (or_now now ca k),
      fst (or_now now ua (snd (or_now now ca k))))
     # fst (deposit_rows now rs (snd (or_now now ua (snd (or_now now ca k)))))"
  by (simp split: prod.split)

lemma deposit_rows_nth:
  "j < length rows \<Longrightarrow> rows ! j = (i, u, a, cur, st, ca, ua) \<Longrightarrow>
   fst (deposit_rows now rows k) ! j =
     (py_str i, py_str u, a, cur, st,
      (case ca of Some t \<Rightarrow> t | None \<Rightarrow> now (k + nulls (take j rows))),
      (case ua of Some t \<Rightarrow> t
       | None \<Rightarrow> now (k + nulls (take j rows) + (if ca = None then 1 else 0))))"
proof (induction rows arbitrary: j k)
  case Nil
  then show ?case by simp
next
  case (Cons r rs)
  obtain i0 u0 a0 cur0 st0 ca0 ua0 where r: "r = (i0, u0, a0, cur0, st0, ca0, ua0)"
    by (cases r)
  show ?case
  proof (cases j)
    case 0
    with Cons.prems r show ?thesis
      by (simp add: deposit_rows_Cons or_now_def del: deposit_rows.simps split: option.split)
  next
    case (Suc j')
    with Cons.prems have j': "j' < length rs" and nth: "rs ! j' = (i, u, a, cur, st, ca, ua)"
      by simp_all
    note ih = Cons.IH [OF j' nth]
    show ?thesis
      unfolding Suc r
      by (cases ca0; cases ua0)
         (simp_all add: deposit_rows_Cons or_now_def ih del: deposit_rows.simps
            split: option.split)
  qed
qed

text \<open>
  C8, as the code has it. A timestamp that is not NULL is passed on as it is. A NULL
  timestamp is replaced by the reading of the clock taken when that field of that row is
  built: its index among the readings of the run is the number of NULL timestamps
  before it. So two defaults are the same value only where the clock gives the same
  reading twice.
\<close>

theorem default_timestamp_is_the_clock_reading_at_that_field:
  assumes "j < length rows" and "rows ! j = (i, u, a, cur, st, ca, ua)"
  shows "fst (migrate_transactions_as_deposits now rows (sink, k)) ! (length sink + j) =
     (py_str i, py_str u, a, cur, st,
      (case ca of Some t \<Rightarrow> t | None \<Rightarrow> now (k + nulls (take j rows))),
      (case ua of Some t \<Rightarrow> t
       | None \<Rightarrow> now (k + nulls (take j rows) + (if ca = None then 1 else 0))))"
proof -
  from assms(1) have ne: "rows \<noteq> []" by auto
  obtain out k' where d: "deposit_rows now rows k = (out, k')"
    by (cases "deposit_rows now rows k")
  from deposit_rows_nth [OF assms, of now k] d
  have "out ! j = (py_str i, py_str u, a, cur, st,
      (case ca of Some t \<Rightarrow> t | None \<Rightarrow> now (k + nulls (take j rows))),
      (case ua of Some t \<Rightarrow> t
       | None \<Rightarrow> now (k + nulls (take j rows) + (if ca = None then 1 else 0))))"
    by simp
  with ne d show ?thesis
    by (simp add: migrate_transactions_as_deposits_def nth_append)
qed

theorem default_timestamp_witness:
  "fst (migrate_transactions_as_deposits (\<lambda>k. 100 + k)
         [(PStr ''t1'', PStr ''u1'', PInt 5, PStr ''USD'', PStr ''ok'', Some 7, None),
          (PStr ''t2'', PStr ''u1'', PInt 9, PStr ''USD'', PStr ''ok'', None, None)]
         ([], 0)) ! 1
     = (''t2'', ''u1'', PInt 9, PStr ''USD'', PStr ''ok'', 101, 102)"
proof -
  let ?rows = "[(PStr ''t1'', PStr ''u1'', PInt 5, PStr ''USD'', PStr ''ok'', Some 7, None),
                (PStr ''t2'', PStr ''u1'', PInt 9, PStr ''USD'', PStr ''ok'', None, None)]"
  have j: "(1::nat) < length ?rows" by simp
  have r: "?rows ! 1 = (PStr ''t2'', PStr ''u1'', PInt 9, PStr ''USD'', PStr ''ok'', None, None)"
    by simp
  from default_timestamp_is_the_clock_reading_at_that_field
    [OF j r, of "\<lambda>k. 100 + k" "[]" 0]
  show ?thesis by simp
qed

text \<open>
  The claim C8 as the specification states it fails: with a clock that moves, two rows
  whose \<open>created_at\<close> is NULL get two different defaults.
\<close>

theorem default_timestamps_differ_between_rows:
  "fst (migrate_transactions_as_deposits (\<lambda>k. 100 + k)
         [(PStr ''t1'', PStr ''u1'', PInt 5, PStr ''USD'', PStr ''ok'', None, Some 3),
          (PStr ''t2'', PStr ''u1'', PInt 9, PStr ''USD'', PStr ''ok'', None, Some 3)]
         ([], 0))
     = [(''t1'', ''u1'', PInt 5, PStr ''USD'', PStr ''ok'', 100, 3),
        (''t2'', ''u1'', PInt 9, PStr ''USD'', PStr ''ok'', 101, 3)]"
  by (simp add: migrate_transactions_as_deposits_def or_now_def)

section \<open>The reliable case\<close>

lemma refuses_reliable [simp]: "refuses (reliable rejects) = rejects"
  by (simp add: reliable_def)

lemma try_commit_reliable [simp]: "try_commit (reliable rejects) c = (None, commit c)"
  by (simp add: try_commit_def reliable_def)

lemma try_rollback_reliable [simp]: "try_rollback (reliable rejects) c = (None, rollback c)"
  by (simp add: try_rollback_def reliable_def)

lemma handle_row_error_reliable:
  "handle_row_error (reliable rejects) s = (None, on_row_error s)"
  by (simp add: handle_row_error_def on_row_error_def split: prod.split)

lemma corrected_body_reliable:
  "corrected_body (reliable rejects) row_num r s = (None, corrected_row 100 rejects row_num r s)"
  by (simp add: corrected_body_def corrected_row_def handle_row_error_reliable Let_def
      split: prod.split sum.split)

lemma simple_body_reliable:
  "simple_body (reliable rejects) row_num r s = (None, simple_row 100 rejects row_num r s)"
  by (simp add: simple_body_def simple_row_def handle_row_error_reliable Let_def
      split: prod.split sum.split)

lemma corrected_for_reliable:
  "corrected_for (reliable rejects) k (map Row rows) s
     = (None, k + length rows, corrected_loop 100 rejects (Suc k) rows s)"
  by (induction rows arbitrary: k s) (simp_all add: corrected_body_reliable)

lemma simple_for_reliable:
  "simple_for (reliable rejects) k (map Row rows) s
     = (None, k + length rows, simple_loop 100 rejects (Suc k) rows s)"
  by (induction rows arbitrary: k s) (simp_all add: simple_body_reliable)

lemma games_for_rows:
  "games_for rejects now (map Row rows) s = games_loop rejects now rows s"
  by (induction rows arbitrary: s) (simp_all split: prod.split option.split)

text \<open>
  On a reliable server and a file without reader errors the scripts in full are the
  runs defined first.
\<close>

lemma run_corrected_reliable:
  "run_corrected (reliable rejects) (map_option (map Row) csv) db
     = import_games_corrected rejects csv db"
  by (cases csv)
     (simp_all add: run_corrected_def import_games_corrected_def corrected_for_reliable
        split: prod.split)

lemma run_simple_reliable:
  "run_simple (reliable rejects) (map_option (map Row) csv) db
     = import_games_simple rejects csv db"
  by (cases csv)
     (simp_all add: run_simple_def import_games_simple_def simple_for_reliable Let_def
        split: prod.split)

lemma run_import_games_reliable:
  "run_import_games (reliable rejects) now (map_option (map Row) csv) db
     = import_games rejects now csv db"
  by (cases csv)
     (simp_all add: run_import_games_def import_games_def games_for_rows exit_handler_def
        split: prod.split option.split)

section \<open>Per-row problems and the end of the run\<close>








text \<open>
  Both hypotheses are needed: a line the reader cannot read, and a rollback that raises
  in the handler, end either script with \<open>sys.exit(1)\<close>.
\<close>

lemma reader_error_ends_the_run:
  "fst (run_corrected sv (Some (ReaderError # ls)) db) = Exited 1
   \<and> fst (run_simple sv (Some (ReaderError # ls)) db) = Exited 1"
  by (simp add: run_corrected_def run_simple_def try_commit_def split: prod.split)

lemma raising_rollback_ends_the_run:
  "fst (run_corrected
          \<lparr>refuses = accepts_all, commit_fails = (\<lambda>l. False), rollback_fails = (\<lambda>l. True)\<rparr>
          (Some [Row (dict_row header [''A'', ''a''])]) []) = Exited 1
   \<and> fst (run_simple
          \<lparr>refuses = accepts_all, commit_fails = (\<lambda>l. False), rollback_fails = (\<lambda>l. True)\<rparr>
          (Some [Row (dict_row header [''A'', ''a''])]) []) = Exited 1"
  by (simp add: run_corrected_def run_simple_def corrected_body_def simple_body_def
      handle_row_error_def try_rollback_def try_commit_def eval_defs)


section \<open>The counters of the corrected loop\<close>

lemma handle_row_error_counts:
  "fst (snd (handle_row_error sv (n, c))) = n\<lparr>error_count := error_count n + 1\<rparr>"
  by (simp add: handle_row_error_def split: prod.split)

lemma corrected_body_one_counter:
  assumes "\<forall>l. \<not> commit_fails sv l"
  shows "fst (snd (corrected_body sv row_num r (n, c))) \<in>
     {n\<lparr>imported_count := imported_count n + 1\<rparr>,
      n\<lparr>updated_count := updated_count n + 1\<rparr>,
      n\<lparr>error_count := error_count n + 1\<rparr>}"
  using assms
  by (simp add: corrected_body_def handle_row_error_counts try_commit_def Let_def
      split: sum.split prod.split)

lemma corrected_body_counted:
  assumes "\<forall>l. \<not> commit_fails sv l"
  shows "counted (fst (snd (corrected_body sv row_num r (n, c)))) = Suc (counted n)"
  using corrected_body_one_counter [OF assms, of row_num r n c]
  by (auto simp: counted_def)

lemma corrected_for_counted:
  assumes "\<forall>l. \<not> commit_fails sv l"
  shows "corrected_for sv k ls (n, c) = (e, k', n', c') \<Longrightarrow>
    counted n' + k = counted n + k' \<and> k' \<le> k + length ls"
proof (induction ls arbitrary: k n c)
  case Nil
  then show ?case by simp
next
  case (Cons x xs)
  show ?case
  proof (cases x)
    case ReaderError
    with Cons.prems show ?thesis by simp
  next
    case (Row r)
    obtain e1 n1 c1 where b: "corrected_body sv (Suc k) r (n, c) = (e1, n1, c1)"
      by (cases "corrected_body sv (Suc k) r (n, c)")
    from corrected_body_counted [OF assms, of "Suc k" r n c] b
    have n1: "counted n1 = Suc (counted n)" by simp
    show ?thesis
    proof (cases e1)
      case None
      with Cons.prems Row b
      have "corrected_for sv (Suc k) xs (n1, c1) = (e, k', n', c')" by simp
      from Cons.IH [OF this] n1 show ?thesis by simp
    next
      case (Some err)
      with Cons.prems Row b have "k' = Suc k" and "n' = n1" by simp_all
      with n1 show ?thesis by simp
    qed
  qed
qed

lemma corrected_for_None_length:
  "corrected_for sv j xs s = (None, j', s') \<Longrightarrow> j' = j + length xs"
proof (induction xs arbitrary: j s)
  case Nil
  then show ?case by simp
next
  case (Cons x xs)
  show ?case
  proof (cases x)
    case ReaderError
    with Cons.prems show ?thesis by simp
  next
    case (Row r)
    obtain e1 s1 where b: "corrected_body sv (Suc j) r s = (e1, s1)"
      by (cases "corrected_body sv (Suc j) r s")
    with Cons.prems Row have e1: "e1 = None"
      and rest: "corrected_for sv (Suc j) xs s1 = (None, j', s')"
      by (auto split: option.splits)
    from Cons.IH [OF rest] show ?thesis by simp
  qed
qed

text \<open>
  C10, as the code has it. On a connection whose commit does not raise, every pass of
  the corrected loop body adds one to exactly one of \<open>imported_count\<close>,
  \<open>updated_count\<close> and \<open>error_count\<close>; wherever the loop stands or stops (after the
  first \<open>i\<close> lines, at a line the reader cannot read, at a rollback that raises) the
  three counters add up to the number of rows read; and when the run completes,
  \<open>imported_count + updated_count\<close> (the printed total) is the number of rows read less
  the errors.
\<close>

theorem corrected_counters_without_commit_failure:
  assumes "\<forall>l. \<not> commit_fails sv l"
  shows "fst (snd (corrected_body sv row_num r (n, c))) \<in>
       {n\<lparr>imported_count := imported_count n + 1\<rparr>,
        n\<lparr>updated_count := updated_count n + 1\<rparr>,
        n\<lparr>error_count := error_count n + 1\<rparr>}
     \<and> (case corrected_for sv 0 (take i ls) (no_counts, connect db) of
          (e, k, n', c') \<Rightarrow>
            imported_count n' + updated_count n' + error_count n' = k \<and> k \<le> length ls)
     \<and> (\<forall>n' c'. run_corrected sv (Some ls) db = (Completed n', c') \<longrightarrow>
          error_count n' \<le> length ls
          \<and> imported_count n' + updated_count n' = length ls - error_count n')"
proof (intro conjI allI impI)
  show "fst (snd (corrected_body sv row_num r (n, c))) \<in>
       {n\<lparr>imported_count := imported_count n + 1\<rparr>,
        n\<lparr>updated_count := updated_count n + 1\<rparr>,
        n\<lparr>error_count := error_count n + 1\<rparr>}"
    by (rule corrected_body_one_counter [OF assms])
next
  obtain e k n' c' where l: "corrected_for sv 0 (take i ls) (no_counts, connect db) = (e, k, n', c')"
    by (cases "corrected_for sv 0 (take i ls) (no_counts, connect db)")
  from corrected_for_counted [OF assms l]
  have "counted n' = k" and "k \<le> length ls" by (simp_all add: counted_def no_counts_def)
  with l show "case corrected_for sv 0 (take i ls) (no_counts, connect db) of
          (e, k, n', c') \<Rightarrow>
            imported_count n' + updated_count n' + error_count n' = k \<and> k \<le> length ls"
    by (simp add: counted_def)
next
  fix n' c'
  assume run: "run_corrected sv (Some ls) db = (Completed n', c')"
  obtain e k n1 c1 where l: "corrected_for sv 0 ls (no_counts, connect db) = (e, k, n1, c1)"
    by (cases "corrected_for sv 0 ls (no_counts, connect db)")
  from run l have e: "e = None" and n1: "n1 = n'"
    by (auto simp: run_corrected_def split: option.splits prod.splits)
  from l e have "k = length ls" using corrected_for_None_length [of sv 0 ls] by simp
  with corrected_for_counted [OF assms l] n1
  have "counted n' = length ls" by (simp add: counted_def no_counts_def)
  then show "error_count n' \<le> length ls" by (simp add: counted_def)
  from \<open>counted n' = length ls\<close>
  show "imported_count n' + updated_count n' = length ls - error_count n'"
    by (simp add: counted_def)
qed

lemma corrected_for_keyless:
  assumes "get_strip r ''game_id'' = Inr gid"
    and "get_strip r ''internal_name'' = Inr iname"
    and "get_strip r ''provider.internal_name'' = Inr prov"
    and "gid = [] \<or> iname = []"
  shows "corrected_for sv k (replicate m (Row r) @ ls) (n, c)
       = corrected_for sv (k + m) ls (n\<lparr>error_count := error_count n + m\<rparr>, c)"
proof (induction m arbitrary: k n)
  case 0
  show ?case by simp
next
  case (Suc m)
  from assms have "corrected_body sv (Suc k) r (n, c)
      = (None, n\<lparr>error_count := error_count n + 1\<rparr>, c)"
    by (simp add: corrected_body_def)
  then show ?case by (simp add: Suc.IH)
qed

theorem corrected_counters_witness:
  "fst (snd (corrected_body (reliable unique_game_id) 100 (dict_row header [''A'', ''a'', ''p''])
         (no_counts, connect [])))
     = no_counts\<lparr>imported_count := 1\<rparr>
   \<and> fst (run_corrected (reliable unique_game_id)
         (Some [Row (dict_row header [''A'', ''a'', ''p'']), Row (dict_row header ['''', ''b'', ''p'']),
                Row (dict_row header [''A'', ''c'', ''p''])]) [])
     = Completed \<lparr>imported_count = 2, updated_count = 0, skipped_count = 0, error_count = 1\<rparr>"
proof -
  let ?sv = "reliable unique_game_id"
  let ?ls = "[Row (dict_row header [''A'', ''a'', ''p'']), Row (dict_row header ['''', ''b'', ''p'']),
              Row (dict_row header [''A'', ''c'', ''p''])]"
  have cm: "\<forall>l. \<not> commit_fails ?sv l" by (simp add: reliable_def)
  note th = corrected_counters_without_commit_failure
    [OF cm, where row_num = 100 and r = "dict_row header [''A'', ''a'', ''p'']"
       and n = no_counts and c = "connect []" and i = 3 and ls = ?ls and db = "[]"]
  have b: "imported_count (fst (snd (corrected_body ?sv 100 (dict_row header [''A'', ''a'', ''p''])
         (no_counts, connect [])))) = 1"
    by (simp add: corrected_body_def handle_row_error_def try_rollback_def try_commit_def
        reliable_def eval_defs)
  from th have "fst (snd (corrected_body ?sv 100 (dict_row header [''A'', ''a'', ''p''])
         (no_counts, connect []))) \<in>
       {no_counts\<lparr>imported_count := imported_count no_counts + 1\<rparr>,
        no_counts\<lparr>updated_count := updated_count no_counts + 1\<rparr>,
        no_counts\<lparr>error_count := error_count no_counts + 1\<rparr>}"
    by (rule conjunct1)
  with b have one: "fst (snd (corrected_body ?sv 100 (dict_row header [''A'', ''a'', ''p''])
         (no_counts, connect []))) = no_counts\<lparr>imported_count := 1\<rparr>"
    by (auto simp: no_counts_def)
  have run: "fst (run_corrected ?sv (Some ?ls) [])
      = Completed \<lparr>imported_count = 2, updated_count = 0, skipped_count = 0, error_count = 1\<rparr>"
    by (simp add: run_corrected_def corrected_body_def handle_row_error_def try_rollback_def
        try_commit_def reliable_def eval_defs)
  from one run show ?thesis by simp
qed

text \<open>
  The claim C10 as stated fails when the commit at the 100th row raises: that row has
  been counted as imported, and the handler counts it again as an error. Here 100 rows
  are read (99 without a key and one good row), the commit after the 100th raises and
  the final one succeeds: the counters add up to 101, and the printed total is 1 where
  the rows less the errors are 0.
\<close>

theorem corrected_commit_failure_counts_a_row_twice:
  "run_corrected
       \<lparr>refuses = accepts_all, commit_fails = (\<lambda>l. length l = 1), rollback_fails = (\<lambda>l. False)\<rparr>
       (Some (replicate 99 (Row (dict_row header ['''', ''x'', ''p'']))
              @ [Row (dict_row header [''A'', ''a'', ''p''])])) []
     = (Completed \<lparr>imported_count = 1, updated_count = 0, skipped_count = 0, error_count = 100\<rparr>,
        \<lparr>committed = [], working = [],
         log = [UpsertGame (new_game ''A'' ''a'' ''a'' ''p''), Commit, Rollback, Commit]\<rparr>)"
proof -
  let ?r = "dict_row header ['''', ''x'', ''p'']"
  have g: "get_strip ?r ''game_id'' = Inr []"
    and i: "get_strip ?r ''internal_name'' = Inr ''x''"
    and p: "get_strip ?r ''provider.internal_name'' = Inr ''p''"
    by (simp_all add: eval_defs)
  have k: "([] :: string) = [] \<or> ''x'' = []" by simp
  have "corrected_for
       \<lparr>refuses = accepts_all, commit_fails = (\<lambda>l. length l = 1), rollback_fails = (\<lambda>l. False)\<rparr>
       0 (replicate 99 (Row ?r) @ [Row (dict_row header [''A'', ''a'', ''p''])])
       (no_counts, connect [])
     = (None, 100,
        \<lparr>imported_count = 1, updated_count = 0, skipped_count = 0, error_count = 100\<rparr>,
        \<lparr>committed = [], working = [],
         log = [UpsertGame (new_game ''A'' ''a'' ''a'' ''p''), Commit, Rollback]\<rparr>)"
    unfolding corrected_for_keyless [OF g i p k]
    by (simp add: corrected_body_def handle_row_error_def try_rollback_def try_commit_def
        eval_defs)
  then show ?thesis
    by (simp add: run_corrected_def try_commit_def commit_def)
qed

section \<open>Where the commit falls\<close>



section \<open>Running import\_games.py again\<close>

lemma known_mono:
  "known r t \<Longrightarrow> set (map game_id t) \<subseteq> set (map game_id t') \<Longrightarrow> known r t'"
  by (auto simp: known_def split: sum.splits)

lemma games_row_known:
  assumes "games_row rejects now r (n, c, k) = (None, n', c', k')"
  shows "known r (working c')
       \<and> set (map game_id (working c)) \<subseteq> set (map game_id (working c'))
       \<and> committed c' = committed c"
  using assms
  by (auto simp: games_row_def known_def select_game_def insert_game_def new_game_def
      split: sum.splits if_splits)

lemma games_loop_known:
  "games_loop rejects now rows (n, c, k) = (None, n', c', k') \<Longrightarrow>
   list_all (\<lambda>r. known r (working c')) rows
   \<and> set (map game_id (working c)) \<subseteq> set (map game_id (working c'))
   \<and> committed c' = committed c"
proof (induction rows arbitrary: n c k)
  case Nil
  then show ?case by simp
next
  case (Cons r rs)
  obtain e n1 c1 k1 where s: "games_row rejects now r (n, c, k) = (e, n1, c1, k1)"
    by (cases "games_row rejects now r (n, c, k)")
  with Cons.prems have e: "e = None"
    and rest: "games_loop rejects now rs (n1, c1, k1) = (None, n', c', k')"
    by (auto split: option.splits)
  from games_row_known [OF s [unfolded e]]
  have r1: "known r (working c1)"
    and sub1: "set (map game_id (working c)) \<subseteq> set (map game_id (working c1))"
    and cm1: "committed c1 = committed c" by simp_all
  from Cons.IH [OF rest]
  have all: "list_all (\<lambda>r. known r (working c')) rs"
    and sub2: "set (map game_id (working c1)) \<subseteq> set (map game_id (working c'))"
    and cm2: "committed c' = committed c1" by simp_all
  from known_mono [OF r1 sub2] all sub1 sub2 cm1 cm2 show ?case by simp
qed

lemma games_row_skip:
  assumes "known r (working c)"
  shows "games_row rejects now r (n, c, k) =
     (None, n\<lparr>skipped_count := skipped_count n + 1\<rparr>,
      c\<lparr>log := log c @ [SelectGame (game_id_of r)]\<rparr>, k)"
  using assms
  by (auto simp: games_row_def known_def select_game_def game_id_of_def split: sum.splits)

lemma games_loop_skip:
  "list_all (\<lambda>r. known r (working c)) rows \<Longrightarrow>
   games_loop rejects now rows (n, c, k) =
     (None, n\<lparr>skipped_count := skipped_count n + length rows\<rparr>,
      c\<lparr>log := log c @ map (\<lambda>r. SelectGame (game_id_of r)) rows\<rparr>, k)"
proof (induction rows arbitrary: n c)
  case Nil
  then show ?case by simp
next
  case (Cons r rs)
  from Cons.prems have r: "known r (working c)"
    and rs: "list_all (\<lambda>x. known x (working (c\<lparr>log := log c @ [SelectGame (game_id_of r)]\<rparr>))) rs"
    by simp_all
  show ?case by (simp add: games_row_skip [OF r] Cons.IH [OF rs])
qed

text \<open>
  When every row has its three cells and the table refuses nothing, the run reaches its
  final commit.
\<close>

lemma import_games_completes:
  assumes "list_all (\<lambda>r. \<forall>k \<in> set header. \<exists>s. r k = Some (Some s)) rows"
    and "\<forall>t g. \<not> rejects t g"
  shows "\<exists>n c. import_games rejects now (Some rows) db = (Completed n, c)"
proof -
  have row: "\<exists>n' c' k'. games_row rejects now r (n, c, k) = (None, n', c', k')"
    if "\<forall>k \<in> set header. \<exists>s. r k = Some (Some s)" for r n c k
    using that assms(2)
    by (auto simp: games_row_def header_def index_strip_def select_game_def insert_game_def)
  have "\<exists>n' c' k'. games_loop rejects now rows (n, c, k) = (None, n', c', k')" for n c k
    using assms(1)
  proof (induction rows arbitrary: n c k)
    case Nil
    then show ?case by simp
  next
    case (Cons r rs)
    from Cons.prems have "\<forall>k \<in> set header. \<exists>s. r k = Some (Some s)" by simp
    from row [OF this, of n c k] obtain n1 c1 k1
      where "games_row rejects now r (n, c, k) = (None, n1, c1, k1)" by blast
    moreover from Cons.prems
    have "list_all (\<lambda>r. \<forall>k \<in> set header. \<exists>s. r k = Some (Some s)) rs"
      by simp
    from Cons.IH [OF this, of n1 c1 k1] obtain n' c' k'
      where "games_loop rejects now rs (n1, c1, k1) = (None, n', c', k')" by blast
    ultimately show ?case by simp
  qed
  from this [of no_counts "connect db" 0] show ?thesis
    by (auto simp: import_games_def)
qed

lemma games_for_None_rows:
  "games_for rejects now ls s = (None, s') \<Longrightarrow> map Row (rows_of ls) = ls"
proof (induction ls arbitrary: s)
  case Nil
  show ?case by simp
next
  case (Cons x xs)
  show ?case
  proof (cases x)
    case ReaderError
    with Cons.prems show ?thesis by simp
  next
    case (Row r)
    obtain e1 s1 where b: "games_row rejects now r s = (e1, s1)"
      by (cases "games_row rejects now r s")
    with Cons.prems Row have "games_for rejects now xs s1 = (None, s')"
      by (auto split: option.splits)
    from Cons.IH [OF this] Row show ?thesis by simp
  qed
qed

text \<open>
  C2, as the code has it. When a run of import\_games.py (skip existing) has reached its
  end, a second run on the same file against the table it left sends no INSERT: its
  calls are one SELECT for each row and the final commit, and the table stays as the
  first run left it. When that commit succeeds the run reports \<open>imported_count\<close> 0 and
  \<open>skipped_count\<close> the number of rows; when it raises, the handler rolls back and the
  process exits with status 1.
\<close>

theorem skip_existing_second_run_sends_no_insert:
  assumes "run_import_games sv1 now1 (Some ls) db = (Completed n1, c1)"
  shows "run_import_games sv2 now2 (Some ls) (committed c1) =
       (if commit_fails sv2 (map (\<lambda>r. SelectGame (game_id_of r)) (rows_of ls))
        then (Exited 1,
              \<lparr>committed = committed c1, working = committed c1,
               log = map (\<lambda>r. SelectGame (game_id_of r)) (rows_of ls) @ [Commit, Rollback]\<rparr>)
        else (Completed \<lparr>imported_count = 0, updated_count = 0,
                         skipped_count = length ls, error_count = 0\<rparr>,
              \<lparr>committed = committed c1, working = committed c1,
               log = map (\<lambda>r. SelectGame (game_id_of r)) (rows_of ls) @ [Commit]\<rparr>))"
proof -
  obtain e n c k
    where l: "games_for (refuses sv1) now1 ls (no_counts, connect db, 0) = (e, n, c, k)"
    by (cases "games_for (refuses sv1) now1 ls (no_counts, connect db, 0)")
  with assms have e: "e = None" and cm: "try_commit sv1 c = (None, c1)"
    by (auto simp: run_import_games_def exit_handler_def split: option.splits prod.splits)
  from cm have c1: "c1 = commit c"
    by (auto simp: try_commit_def split: if_splits)
  from games_for_None_rows [OF l [unfolded e]] have ls: "map Row (rows_of ls) = ls" .
  then have len: "length (rows_of ls) = length ls"
    by (metis length_map)
  from l e ls have "games_loop (refuses sv1) now1 (rows_of ls) (no_counts, connect db, 0)
      = (None, n, c, k)"
    by (metis games_for_rows)
  from games_loop_known [OF this]
  have "list_all (\<lambda>r. known r (working c)) (rows_of ls)" by simp
  then have "list_all (\<lambda>r. known r (working (connect (committed c1)))) (rows_of ls)"
    by (simp add: c1 commit_def connect_def)
  from games_loop_skip [OF this, of "refuses sv2" now2 no_counts 0]
  have "games_for (refuses sv2) now2 ls (no_counts, connect (committed c1), 0)
      = (None, no_counts\<lparr>skipped_count := skipped_count no_counts + length (rows_of ls)\<rparr>,
         (connect (committed c1))
           \<lparr>log := log (connect (committed c1))
              @ map (\<lambda>r. SelectGame (game_id_of r)) (rows_of ls)\<rparr>, 0)"
    by (metis games_for_rows ls)
  then show ?thesis
    by (simp add: run_import_games_def exit_handler_def try_commit_def try_rollback_def
        no_counts_def connect_def commit_def rollback_def len)
qed

theorem skip_existing_second_run_sends_no_insert_witness:
  "run_import_games (reliable unique_game_id) (\<lambda>k. 10 + k)
       (Some [Row (dict_row header [''A'', ''a'', ''p'']), Row (dict_row header [''B'', ''b'', ''p''])])
       [new_game ''B'' ''old'' ''old'' ''p'']
     = (Completed \<lparr>imported_count = 1, updated_count = 0, skipped_count = 1, error_count = 0\<rparr>,
        \<lparr>committed = [new_game ''B'' ''old'' ''old'' ''p'',
            (new_game ''A'' ''a'' ''a'' ''p'')
              \<lparr>status := Some ''ACTIVE'', enabled := Some True, timestamp := Some 10\<rparr>],
         working = [new_game ''B'' ''old'' ''old'' ''p'',
            (new_game ''A'' ''a'' ''a'' ''p'')
              \<lparr>status := Some ''ACTIVE'', enabled := Some True, timestamp := Some 10\<rparr>],
         log = [SelectGame ''A'',
                InsertGame ((new_game ''A'' ''a'' ''a'' ''p'')
                  \<lparr>status := Some ''ACTIVE'', enabled := Some True, timestamp := Some 10\<rparr>),
                SelectGame ''B'', Commit]\<rparr>)
   \<and> run_import_games
       \<lparr>refuses = unique_game_id, commit_fails = (\<lambda>l. True), rollback_fails = (\<lambda>l. False)\<rparr>
       (\<lambda>k. 20 + k)
       (Some [Row (dict_row header [''A'', ''a'', ''p'']), Row (dict_row header [''B'', ''b'', ''p''])])
       [new_game ''B'' ''old'' ''old'' ''p'',
        (new_game ''A'' ''a'' ''a'' ''p'')
          \<lparr>status := Some ''ACTIVE'', enabled := Some True, timestamp := Some 10\<rparr>]
     = (Exited 1,
        \<lparr>committed = [new_game ''B'' ''old'' ''old'' ''p'',
            (new_game ''A'' ''a'' ''a'' ''p'')
              \<lparr>status := Some ''ACTIVE'', enabled := Some True, timestamp := Some 10\<rparr>],
         working = [new_game ''B'' ''old'' ''old'' ''p'',
            (new_game ''A'' ''a'' ''a'' ''p'')
              \<lparr>status := Some ''ACTIVE'', enabled := Some True, timestamp := Some 10\<rparr>],
         log = [SelectGame ''A'', SelectGame ''B'', Commit, Rollback]\<rparr>)
   \<and> run_import_games (reliable unique_game_id) (\<lambda>k. 20 + k)
       (Some [Row (dict_row header [''A'', ''a'', ''p'']), Row (dict_row header [''B'', ''b'', ''p''])])
       [new_game ''B'' ''old'' ''old'' ''p'',
        (new_game ''A'' ''a'' ''a'' ''p'')
          \<lparr>status := Some ''ACTIVE'', enabled := Some True, timestamp := Some 10\<rparr>]
     = (Completed \<lparr>imported_count = 0, updated_count = 0, skipped_count = 2, error_count = 0\<rparr>,
        \<lparr>committed = [new_game ''B'' ''old'' ''old'' ''p'',
            (new_game ''A'' ''a'' ''a'' ''p'')
              \<lparr>status := Some ''ACTIVE'', enabled := Some True, timestamp := Some 10\<rparr>],
         working = [new_game ''B'' ''old'' ''old'' ''p'',
            (new_game ''A'' ''a'' ''a'' ''p'')
              \<lparr>status := Some ''ACTIVE'', enabled := Some True, timestamp := Some 10\<rparr>],
         log = [SelectGame ''A'', SelectGame ''B'', Commit]\<rparr>)"
proof -
  let ?ls = "[Row (dict_row header [''A'', ''a'', ''p'']), Row (dict_row header [''B'', ''b'', ''p''])]"
  let ?gA = "(new_game ''A'' ''a'' ''a'' ''p'')
      \<lparr>status := Some ''ACTIVE'', enabled := Some True, timestamp := Some 10\<rparr>"
  let ?c1 = "\<lparr>committed = [new_game ''B'' ''old'' ''old'' ''p'', ?gA],
      working = [new_game ''B'' ''old'' ''old'' ''p'', ?gA],
      log = [SelectGame ''A'', InsertGame ?gA, SelectGame ''B'', Commit]\<rparr>"
  let ?bad = "\<lparr>refuses = unique_game_id, commit_fails = (\<lambda>l. True),
      rollback_fails = (\<lambda>l. False)\<rparr>"
  have first: "run_import_games (reliable unique_game_id) (\<lambda>k. 10 + k) (Some ?ls)
      [new_game ''B'' ''old'' ''old'' ''p'']
    = (Completed \<lparr>imported_count = 1, updated_count = 0, skipped_count = 1, error_count = 0\<rparr>,
       ?c1)"
    by (simp add: run_import_games_def exit_handler_def try_commit_def try_rollback_def
        reliable_def eval_defs)
  have keys: "map (\<lambda>r. SelectGame (game_id_of r)) (rows_of ?ls)
      = [SelectGame ''A'', SelectGame ''B'']"
    by (simp add: game_id_of_def eval_defs)
  from skip_existing_second_run_sends_no_insert [OF first, of ?bad "\<lambda>k. 20 + k"]
  have bad: "run_import_games ?bad (\<lambda>k. 20 + k) (Some ?ls) (committed ?c1)
      = (Exited 1, \<lparr>committed = committed ?c1, working = committed ?c1,
           log = [SelectGame ''A'', SelectGame ''B''] @ [Commit, Rollback]\<rparr>)"
    unfolding keys by simp
  from skip_existing_second_run_sends_no_insert
    [OF first, of "reliable unique_game_id" "\<lambda>k. 20 + k"]
  have good: "run_import_games (reliable unique_game_id) (\<lambda>k. 20 + k) (Some ?ls) (committed ?c1)
      = (Completed \<lparr>imported_count = 0, updated_count = 0, skipped_count = length ?ls,
                     error_count = 0\<rparr>,
         \<lparr>committed = committed ?c1, working = committed ?c1,
          log = [SelectGame ''A'', SelectGame ''B''] @ [Commit]\<rparr>)"
    unfolding keys by (simp add: reliable_def)
  from first bad good show ?thesis by simp
qed

text \<open>
  The claim C2 as the specification states it fails: the line \<^verbatim>\<open>A,a\<close> has its key
  (\<open>game_id\<close> and \<open>internal_name\<close>) but no provider cell, so \<open>None.strip\<close> raises and
  the run rolls back and exits. The table is as before, and the second run on it is the
  same run: no row is inserted by the first and none is marked as skipped by the second.
\<close>

theorem skip_existing_exits_twice_on_a_short_line:
  "run_import_games (reliable accepts_all) (\<lambda>k. 0)
       (Some [Row (dict_row header [''A'', ''a''])]) []
     = (Exited 1, \<lparr>committed = [], working = [], log = [Rollback]\<rparr>)
   \<and> run_import_games (reliable accepts_all) (\<lambda>k. 0)
       (Some [Row (dict_row header [''A'', ''a''])])
       (committed (snd (run_import_games (reliable accepts_all) (\<lambda>k. 0)
          (Some [Row (dict_row header [''A'', ''a''])]) [])))
     = (Exited 1, \<lparr>committed = [], working = [], log = [Rollback]\<rparr>)"
  by (simp add: run_import_games_def exit_handler_def try_commit_def try_rollback_def
      reliable_def eval_defs)

end
